theory Spec2Isabelle
  imports Main
begin

section \<open>Menu service of the food delivery system (restaurant.py)\<close>

text \<open>
  The service is a set of five Flask handlers over one MongoDB collection, \<open>menus\<close>.
  Each handler is embedded as a function that takes the collection (and the request) and
  returns the response together with the collection as the handler leaves it.

  Scope of the model.
  \<^item> A field value of a request or of a stored item is a JSON scalar: null, a boolean,
    an integer of any size (Python's \<open>int\<close>) or a string. Floats, arrays and objects as
    field values are not modelled.
  \<^item> A handler starts from the parsed body, the value of \<open>request.get_json()\<close>; a
    request that Flask refuses before that point is not modelled.
  \<^item> The collection is the list of its documents in natural (insertion) order; a handler
    runs alone against it, and the store itself does not fault (no lost connection, no
    document beyond its size limit). The exceptions are the ones raised on the way:
    \<open>InvalidId\<close> from \<open>ObjectId(...)\<close>, \<open>AttributeError\<close> from \<open>data.get\<close> on a body
    that is not a JSON object, and \<open>OverflowError\<close> from the driver when \<open>insert_one\<close>
    or \<open>update_one\<close> has to encode an integer that does not fit eight bytes.
  \<^item> \<open>update_one\<close> follows the documented behaviour of MongoDB 5.0 and later: it
    changes the first document that matches the filter, \<open>modified_count\<close> is 1 when
    the document changed and 0 otherwise, and a \<open>$set\<close> with an empty operand is
    accepted and changes nothing.
\<close>

subsection \<open>JSON scalars as Python sees them\<close>

datatype jval = JNull | JBool bool | JInt int | JStr string

text \<open>Python truthiness, as \<open>not v\<close> tests it: \<open>None\<close>, \<open>False\<close>, \<open>0\<close> and
  \<open>""\<close> are false.\<close>

fun truthy :: "jval \<Rightarrow> bool" where
  "truthy JNull = False"
| "truthy (JBool b) = b"
| "truthy (JInt n) = (n \<noteq> 0)"
| "truthy (JStr s) = (s \<noteq> [])"

text \<open>Python's \<open>==\<close> on scalars: \<open>bool\<close> is a subclass of \<open>int\<close>, so \<open>True == 1\<close>
  and \<open>False == 0\<close>; values of other different types are unequal.\<close>

fun py_eq :: "jval \<Rightarrow> jval \<Rightarrow> bool" where
  "py_eq (JBool b) (JInt n) = (n = (if b then 1 else 0))"
| "py_eq (JInt n) (JBool b) = (n = (if b then 1 else 0))"
| "py_eq a b = (a = b)"

text \<open>The parsed request body, \<open>request.get_json()\<close>: a dict, or a JSON value of another
  Python type (whose type name is kept for the error message).\<close>

type_synonym dict = "string \<Rightarrow> jval option"

datatype body = is_Obj: Obj dict | NonObj string

text \<open>\<open>data.get(key)\<close>: \<open>None\<close> for an absent key.\<close>

definition dict_get :: "dict \<Rightarrow> string \<Rightarrow> jval" where
  "dict_get d k = (case d k of None \<Rightarrow> JNull | Some v \<Rightarrow> v)"

subsection \<open>Object identifiers and exceptions\<close>

text \<open>An \<open>ObjectId\<close> is twelve bytes; it is kept as its 24 lowercase hexadecimal digits,
  which is also what \<open>str\<close> renders. \<open>ObjectId(s)\<close> accepts a string of 24 hexadecimal
  digits of either case and raises \<open>InvalidId\<close> for any other string. (A string of
  length 24 with white space between its digit pairs, which \<open>bytes.fromhex\<close> would skip,
  is taken as invalid here.)\<close>

datatype oid = Oid string

datatype py_exn = InvalidId string | AttributeError string | OverflowError

definition hexdigit :: "char \<Rightarrow> bool" where
  "hexdigit c = (c \<in> set ''0123456789abcdefABCDEF'')"

definition lower_hex :: "char \<Rightarrow> char" where
  "lower_hex c =
     (if c = CHR ''A'' then CHR ''a'' else if c = CHR ''B'' then CHR ''b''
      else if c = CHR ''C'' then CHR ''c'' else if c = CHR ''D'' then CHR ''d''
      else if c = CHR ''E'' then CHR ''e'' else if c = CHR ''F'' then CHR ''f'' else c)"

definition ObjectId :: "string \<Rightarrow> py_exn + oid" where
  "ObjectId s =
     (if length s = 24 \<and> list_all hexdigit s then Inr (Oid (map lower_hex s))
      else Inl (InvalidId s))"

fun str_oid :: "oid \<Rightarrow> string" where
  "str_oid (Oid s) = s"

text \<open>\<open>str(e)\<close>, the text of the exception (the quoting of \<open>repr\<close> is simplified).\<close>

fun str_exn :: "py_exn \<Rightarrow> string" where
  "str_exn (InvalidId s) =
     [CHR 0x27] @ s @ [CHR 0x27] @
     '' is not a valid ObjectId, it must be a 12-byte input or a 24-character hex string''"
| "str_exn (AttributeError ty) =
     [CHR 0x27] @ ty @ [CHR 0x27] @ '' object has no attribute '' @ [CHR 0x27] @ ''get'' @ [CHR 0x27]"
| "str_exn OverflowError = ''MongoDB can only handle up to 8-byte ints''"

subsection \<open>Documents of the collection\<close>

record item =
  product_name :: jval
  price :: jval
  detail :: jval

text \<open>A menu document. The field \<open>doc_id\<close> is the document's \<open>_id\<close>. Stored documents
  carry identifiers of type \<^typ>\<open>oid\<close>; the documents \<open>get_all_menus\<close> returns carry
  them as strings.\<close>

record 'i menu_doc =
  doc_id :: 'i
  restaurant_id :: 'i
  menu_items :: "item list"

type_synonym collection = "oid menu_doc list"

subsection \<open>The store operations the handlers call\<close>

text \<open>\<open>menus.find_one({"restaurant_id": rid})\<close>: the first document of that restaurant.\<close>

definition find_one :: "collection \<Rightarrow> oid \<Rightarrow> oid menu_doc option" where
  "find_one menus rid = List.find (\<lambda>doc. restaurant_id doc = rid) menus"

text \<open>BSON has integers of four and of eight bytes. The driver encodes a document before
  it sends it and raises \<open>OverflowError\<close> on an integer outside the signed 64-bit range.\<close>

fun bson_encodable :: "jval \<Rightarrow> bool" where
  "bson_encodable (JInt n) = (- (2 ^ 63) \<le> n \<and> n < 2 ^ 63)"
| "bson_encodable v = True"

text \<open>The scalars of an item, in the order of its keys.\<close>

definition item_values :: "item \<Rightarrow> jval list" where
  "item_values it = [product_name it, price it, detail it]"

text \<open>\<open>menus.insert_one(doc)\<close>: the document is encoded and goes to the end of the
  collection.\<close>

definition insert_one :: "collection \<Rightarrow> oid menu_doc \<Rightarrow> py_exn + collection" where
  "insert_one menus doc =
     (if list_all bson_encodable (concat (map item_values (menu_items doc)))
      then Inr (menus @ [doc]) else Inl OverflowError)"

fun update_first :: "('a \<Rightarrow> bool) \<Rightarrow> ('a \<Rightarrow> 'a) \<Rightarrow> 'a list \<Rightarrow> 'a list" where
  "update_first P f [] = []"
| "update_first P f (x # xs) = (if P x then f x # xs else x # update_first P f xs)"

text \<open>What the store does with an update it has received: the update is applied to the
  first document that matches the filter; the second component is \<open>modified_count\<close>.\<close>

definition apply_update ::
  "collection \<Rightarrow> (oid menu_doc \<Rightarrow> bool) \<Rightarrow> (oid menu_doc \<Rightarrow> oid menu_doc) \<Rightarrow> collection \<times> nat" where
  "apply_update menus flt upd =
     (case List.find flt menus of
        None \<Rightarrow> (menus, 0)
      | Some doc \<Rightarrow> (update_first flt upd menus, if upd doc = doc then 0 else 1))"

text \<open>\<open>menus.update_one(filter, update)\<close>: the driver encodes the filter and the update,
  whose scalars are \<open>sent\<close>, and the store applies the update.\<close>

definition update_one ::
  "collection \<Rightarrow> jval list \<Rightarrow> (oid menu_doc \<Rightarrow> bool) \<Rightarrow> (oid menu_doc \<Rightarrow> oid menu_doc)
     \<Rightarrow> py_exn + collection \<times> nat" where
  "update_one menus sent flt upd =
     (if list_all bson_encodable sent then Inr (apply_update menus flt upd)
      else Inl OverflowError)"

text \<open>\<open>{"$push": {"menu_items": it}}\<close>\<close>

definition push_op :: "item \<Rightarrow> oid menu_doc \<Rightarrow> oid menu_doc" where
  "push_op it doc = doc\<lparr>menu_items := menu_items doc @ [it]\<rparr>"

text \<open>The keys of \<open>update_data\<close>: \<open>"menu_items.$.price"\<close> and \<open>"menu_items.$.detail"\<close>.\<close>

datatype set_key = Price | Detail

fun set_field :: "set_key \<times> jval \<Rightarrow> item \<Rightarrow> item" where
  "set_field (Price, v) it = it\<lparr>price := v\<rparr>"
| "set_field (Detail, v) it = it\<lparr>detail := v\<rparr>"

text \<open>\<open>{"$set": update_data}\<close> under the filter \<open>"menu_items.product_name": name\<close>: the
  positional \<open>$\<close> is the first array element whose \<open>product_name\<close> is \<open>name\<close> (the
  store compares scalars by type and value).\<close>

definition set_op :: "jval \<Rightarrow> (set_key \<times> jval) list \<Rightarrow> oid menu_doc \<Rightarrow> oid menu_doc" where
  "set_op name update_data doc =
     doc\<lparr>menu_items :=
       update_first (\<lambda>it. product_name it = name) (fold set_field update_data) (menu_items doc)\<rparr>"

text \<open>\<open>{"$pull": {"menu_items": {"product_name": name}}}\<close>: every element of that name
  is removed.\<close>

definition pull_op :: "string \<Rightarrow> oid menu_doc \<Rightarrow> oid menu_doc" where
  "pull_op name doc =
     doc\<lparr>menu_items := filter (\<lambda>it. product_name it \<noteq> JStr name) (menu_items doc)\<rparr>"

subsection \<open>Responses\<close>

text \<open>A response is the pair the handlers return: the dict given to \<open>jsonify\<close>, as the
  list of its entries, and the status code.\<close>

datatype rval = RStr string | RItems "item list" | RMenus "string menu_doc list"

type_synonym response = "(string \<times> rval) list \<times> nat"

definition error_response :: "string \<Rightarrow> py_exn \<Rightarrow> response" where
  "error_response m e = ([(''msg'', RStr m), (''error'', RStr (str_exn e))], 500)"

subsection \<open>The handlers\<close>

text \<open>In each handler the store calls stand inside the \<open>try\<close>: what they raise becomes
  the 500 response of the \<open>except\<close> branch, and the collection stays as it was.

  \<open>add_menu\<close> (POST). \<open>new_id\<close> is the \<open>_id\<close> the driver generates for an inserted
  document. \<open>data.get\<close> stands before the \<open>try\<close>, so on a body that is not an object the
  exception leaves the handler. \<open>new_item\<close> is the dict \<open>new_menu_item\<close>.\<close>

definition new_item :: "dict \<Rightarrow> item" where
  "new_item d = \<lparr>product_name = dict_get d ''product_name'',
                 price = dict_get d ''price'',
                 detail = dict_get d ''detail''\<rparr>"

definition add_menu ::
  "oid \<Rightarrow> collection \<Rightarrow> string \<Rightarrow> body \<Rightarrow> (py_exn + response) \<times> collection" where
  "add_menu new_id menus rid data =
     (case data of
        NonObj ty \<Rightarrow> (Inl (AttributeError ty), menus)
      | Obj d \<Rightarrow>
          if \<not> truthy (dict_get d ''product_name'') \<or> \<not> truthy (dict_get d ''price'')
             \<or> \<not> truthy (dict_get d ''detail'')
          then (Inr ([(''msg'', RStr ''Missing required fields (product_name, price, detail)'')], 400),
                menus)
          else
            let new_menu_item = new_item d
            in (case ObjectId rid of
                  Inl e \<Rightarrow> (Inr (error_response ''Error adding menu item'' e), menus)
                | Inr r \<Rightarrow>
                    (case find_one menus r of
                       Some existing_menu \<Rightarrow>
                         (case update_one menus (item_values new_menu_item)
                                 (\<lambda>doc. restaurant_id doc = r) (push_op new_menu_item) of
                            Inl e \<Rightarrow> (Inr (error_response ''Error adding menu item'' e), menus)
                          | Inr result \<Rightarrow>
                              (Inr ([(''msg'', RStr ''Menu item added successfully to existing menu'')],
                                    200),
                               fst result))
                     | None \<Rightarrow>
                         (case insert_one menus
                                 \<lparr>doc_id = new_id, restaurant_id = r,
                                  menu_items = [new_menu_item]\<rparr> of
                            Inl e \<Rightarrow> (Inr (error_response ''Error adding menu item'' e), menus)
                          | Inr menus' \<Rightarrow>
                              (Inr ([(''msg'', RStr ''New menu created and item added successfully'')],
                                    201),
                               menus')))))"

text \<open>\<open>get_menu\<close> (GET); it only reads.\<close>

definition get_menu :: "collection \<Rightarrow> string \<Rightarrow> response" where
  "get_menu menus rid =
     (case ObjectId rid of
        Inl e \<Rightarrow> error_response ''Error retrieving menu'' e
      | Inr r \<Rightarrow>
          (case find_one menus r of
             Some restaurant_menu \<Rightarrow>
               ([(''msg'', RStr ''Menu retrieved successfully''),
                 (''menu'', RItems (menu_items restaurant_menu))], 200)
           | None \<Rightarrow> ([(''msg'', RStr ''No menu found for the given restaurant_id'')], 404)))"

text \<open>\<open>update_menu\<close> (PUT). Everything after \<open>request.get_json()\<close> is inside the \<open>try\<close>.
  \<open>data['product_name']\<close> is read only after \<open>data.get('product_name')\<close> was truthy, where
  both are the same value.\<close>

definition update_data_of :: "dict \<Rightarrow> (set_key \<times> jval) list" where
  "update_data_of d =
     (case d ''price'' of None \<Rightarrow> [] | Some v \<Rightarrow> [(Price, v)]) @
     (case d ''detail'' of None \<Rightarrow> [] | Some v \<Rightarrow> [(Detail, v)])"

definition update_menu :: "collection \<Rightarrow> string \<Rightarrow> body \<Rightarrow> response \<times> collection" where
  "update_menu menus rid data =
     (case ObjectId rid of
        Inl e \<Rightarrow> (error_response ''Error updating menu'' e, menus)
      | Inr r \<Rightarrow>
          (case find_one menus r of
             None \<Rightarrow> (([(''msg'', RStr ''Restaurant menu not found'')], 404), menus)
           | Some restaurant_menu \<Rightarrow>
               (case data of
                  NonObj ty \<Rightarrow> (error_response ''Error updating menu'' (AttributeError ty), menus)
                | Obj d \<Rightarrow>
                    if \<not> truthy (dict_get d ''product_name'')
                    then (([(''msg'', RStr ''Product name is required'')], 400), menus)
                    else
                      let name = dict_get d ''product_name'' in
                      (case List.find (\<lambda>it. py_eq (product_name it) name)
                              (menu_items restaurant_menu) of
                         Some existing_product \<Rightarrow>
                           let update_data = update_data_of d in
                           (case update_one menus (name # map snd update_data)
                                   (\<lambda>doc. restaurant_id doc = r \<and>
                                      list_ex (\<lambda>it. product_name it = name) (menu_items doc))
                                   (set_op name update_data) of
                              Inl e \<Rightarrow> (error_response ''Error updating menu'' e, menus)
                            | Inr result \<Rightarrow>
                                if snd result > 0
                                then (([(''msg'', RStr ''Menu item updated successfully'')], 200),
                                      fst result)
                                else (([(''msg'', RStr ''No changes made to the product'')], 400),
                                      fst result))
                       | None \<Rightarrow>
                           (([(''msg'', RStr ''Product not found in the menu'')], 404), menus)))))"

text \<open>\<open>delete_menu_item\<close> (DELETE); \<open>pname\<close> is the product name of the URL, a string.\<close>

definition delete_menu_item :: "collection \<Rightarrow> string \<Rightarrow> string \<Rightarrow> response \<times> collection" where
  "delete_menu_item menus rid pname =
     (case ObjectId rid of
        Inl e \<Rightarrow> (error_response ''Error deleting menu item'' e, menus)
      | Inr r \<Rightarrow>
          (case find_one menus r of
             None \<Rightarrow> (([(''msg'', RStr ''Restaurant menu not found'')], 404), menus)
           | Some restaurant_menu \<Rightarrow>
               (case List.find (\<lambda>it. py_eq (product_name it) (JStr pname))
                       (menu_items restaurant_menu) of
                  None \<Rightarrow> (([(''msg'', RStr ''Product not found in the menu'')], 404), menus)
                | Some item_to_remove \<Rightarrow>
                    (case update_one menus [JStr pname] (\<lambda>doc. restaurant_id doc = r)
                            (pull_op pname) of
                       Inl e \<Rightarrow> (error_response ''Error deleting menu item'' e, menus)
                     | Inr result \<Rightarrow>
                         if snd result > 0
                         then (([(''msg'', RStr ''Menu item deleted successfully'')], 200),
                               fst result)
                         else (([(''msg'', RStr ''No changes made to the menu'')], 400),
                               fst result)))))"

text \<open>\<open>get_all_menus\<close> (GET /menu); it only reads.\<close>

definition get_all_menus :: "collection \<Rightarrow> response" where
  "get_all_menus menus =
     (let all_menus = menus in
      if all_menus = [] then ([(''msg'', RStr ''No menus found'')], 404)
      else
        let formatted_menus =
              map (\<lambda>menu. \<lparr>doc_id = str_oid (doc_id menu),
                            restaurant_id = str_oid (restaurant_id menu),
                            menu_items = menu_items menu\<rparr>) all_menus
        in ([(''msg'', RStr ''Menus retrieved successfully''), (''menus'', RMenus formatted_menus)],
            200))"

subsection \<open>Vocabulary of the properties\<close>

text \<open>The name a request gives, \<open>data.get('product_name')\<close>, when the body is an object.\<close>

fun name_of :: "body \<Rightarrow> jval" where
  "name_of (Obj d) = dict_get d ''product_name''"
| "name_of (NonObj ty) = JNull"

text \<open>\<open>same_but_fields name it' it\<close>: the item \<open>it'\<close> has the \<open>product_name\<close> of \<open>it\<close>,
  and is \<open>it\<close> itself unless \<open>it\<close> carries the name \<open>name\<close>.\<close>

definition same_but_fields :: "jval \<Rightarrow> item \<Rightarrow> item \<Rightarrow> bool" where
  "same_but_fields name it' it =
     (product_name it' = product_name it \<and> (it' = it \<or> product_name it = name))"

text \<open>A response is well formed when its body has a string under \<open>"msg"\<close>, and has a
  string under \<open>"error"\<close> when the status is 500 and no \<open>"error"\<close> entry otherwise.\<close>

fun is_str :: "rval option \<Rightarrow> bool" where
  "is_str (Some (RStr s)) = True"
| "is_str _ = False"

definition well_formed :: "response \<Rightarrow> bool" where
  "well_formed resp =
     (is_str (map_of (fst resp) ''msg'') \<and>
      (if snd resp = 500 then is_str (map_of (fst resp) ''error'')
       else map_of (fst resp) ''error'' = None))"

subsection \<open>A small collection for the worked examples\<close>

text \<open>Two restaurants; the second menu lists the burger twice. \<open>ex_rid\<close> is the id of
  the second restaurant as a client may write it, with an upper-case digit.\<close>

definition ex_rid :: string where
  "ex_rid = ''64B7f0c2a1d3e4f5a6b7c8d9''"

definition ex_oid :: oid where
  "ex_oid = Oid ''64b7f0c2a1d3e4f5a6b7c8d9''"

definition ex_burger :: item where
  "ex_burger = \<lparr>product_name = JStr ''Burger'', price = JInt 5, detail = JStr ''Beef''\<rparr>"

definition ex_fries :: item where
  "ex_fries = \<lparr>product_name = JStr ''Fries'', price = JInt 2, detail = JStr ''Crispy''\<rparr>"

definition ex_menu :: "oid menu_doc" where
  "ex_menu = \<lparr>doc_id = Oid ''000000000000000000000001'', restaurant_id = ex_oid,
              menu_items = [ex_burger, ex_fries, ex_burger]\<rparr>"

definition ex_other :: "oid menu_doc" where
  "ex_other = \<lparr>doc_id = Oid ''000000000000000000000002'',
               restaurant_id = Oid ''00000000000000000000000a'',
               menu_items = [ex_burger]\<rparr>"

definition ex_menus :: collection where
  "ex_menus = [ex_other, ex_menu]"

section \<open>Auxiliary facts\<close>

subsection \<open>Python equality, first-match search and update\<close>

lemma py_eq_refl: "py_eq a a"
  by (cases a) simp_all

lemma py_eq_JStr: "py_eq a (JStr s) = (a = JStr s)"
  by (cases a) simp_all

lemma find_conj:
  "List.find P xs = Some x \<Longrightarrow> Q x \<Longrightarrow> List.find (\<lambda>y. P y \<and> Q y) xs = Some x"
  by (induction xs) (auto split: if_splits)

lemma update_first_same_iff:
  "List.find P xs = Some x \<Longrightarrow> (update_first P f xs = xs) = (f x = x)"
  by (induction xs) (auto split: if_splits)

lemma update_first_append:
  "\<forall>y\<in>set pre. \<not> P y \<Longrightarrow> P x \<Longrightarrow> update_first P f (pre @ x # post) = pre @ f x # post"
  by (induction pre) auto

lemma find_append_first:
  "\<forall>y\<in>set pre. \<not> P y \<Longrightarrow> P x \<Longrightarrow> List.find P (pre @ x # post) = Some x"
  by (induction pre) auto

lemma filter_update_first:
  "(\<And>x. P x \<Longrightarrow> \<not> Q x \<and> \<not> Q (f x)) \<Longrightarrow> filter Q (update_first P f xs) = filter Q xs"
  by (induction xs) auto

lemma fold_set_field_same:
  "(fold set_field (update_data_of d) it = it) =
   ((d ''price'' = None \<or> d ''price'' = Some (price it)) \<and>
    (d ''detail'' = None \<or> d ''detail'' = Some (detail it)))"
  by (cases it) (auto simp: update_data_of_def split: option.splits)

lemma fold_set_field_eq:
  "fold set_field (update_data_of d) it =
     it\<lparr>price := (case d ''price'' of None \<Rightarrow> price it | Some v \<Rightarrow> v),
        detail := (case d ''detail'' of None \<Rightarrow> detail it | Some v \<Rightarrow> v)\<rparr>"
  by (cases it) (auto simp: update_data_of_def split: option.splits)

lemma product_name_fold [simp]:
  "product_name (fold set_field ud it) = product_name it"
  by (induction ud arbitrary: it) (auto, case_tac a, auto)

subsection \<open>Store operations\<close>

lemma find_one_append_new:
  "find_one menus r = None \<Longrightarrow> restaurant_id doc = r \<Longrightarrow> find_one (menus @ [doc]) r = Some doc"
  unfolding find_one_def by (induction menus) (auto split: if_splits)

lemma find_one_update_first:
  "find_one menus r = Some m \<Longrightarrow> restaurant_id (f m) = r \<Longrightarrow>
   find_one (update_first (\<lambda>doc. restaurant_id doc = r) f menus) r = Some (f m)"
  unfolding find_one_def by (induction menus) (auto split: if_splits)

lemma add_menu_fresh:
  assumes "ObjectId rid = Inr r" and "find_one menus r = None"
    and "truthy (dict_get d ''product_name'')" and "truthy (dict_get d ''price'')"
    and "truthy (dict_get d ''detail'')"
    and "list_all bson_encodable (item_values (new_item d))"
  shows "add_menu new_id menus rid (Obj d) =
           (Inr ([(''msg'', RStr ''New menu created and item added successfully'')], 201),
            menus @ [\<lparr>doc_id = new_id, restaurant_id = r, menu_items = [new_item d]\<rparr>])"
  using assms by (simp add: add_menu_def insert_one_def)

lemma add_menu_existing:
  assumes "ObjectId rid = Inr r" and "find_one menus r = Some m"
    and "truthy (dict_get d ''product_name'')" and "truthy (dict_get d ''price'')"
    and "truthy (dict_get d ''detail'')"
    and "list_all bson_encodable (item_values (new_item d))"
  shows "add_menu new_id menus rid (Obj d) =
           (Inr ([(''msg'', RStr ''Menu item added successfully to existing menu'')], 200),
            update_first (\<lambda>doc. restaurant_id doc = r) (push_op (new_item d)) menus)"
  using assms by (simp add: add_menu_def update_one_def apply_update_def find_one_def)

lemma ObjectId_R1: "ObjectId ''64B7f0c2a1d3e4f5a6b7c8d9'' = Inr (Oid ''64b7f0c2a1d3e4f5a6b7c8d9'')"
  by (simp add: ObjectId_def hexdigit_def lower_hex_def)

subsection \<open>The update handler on a menu that has the item\<close>

lemma update_first_conj:
  "List.find P xs = Some x \<Longrightarrow> Q x \<Longrightarrow>
   update_first (\<lambda>y. P y \<and> Q y) f xs = update_first P f xs"
  by (induction xs) (auto split: if_splits)

lemma find_exact_imp_py:
  "List.find (\<lambda>it. product_name it = name) xs = Some it \<Longrightarrow>
   List.find (\<lambda>it. py_eq (product_name it) name) xs \<noteq> None"
  by (induction xs) (auto simp: py_eq_refl split: if_splits)

lemma set_op_same_iff:
  "List.find (\<lambda>it. product_name it = name) (menu_items m) = Some it \<Longrightarrow>
   (set_op name ud m = m) = (fold set_field ud it = it)"
proof -
  assume f: "List.find (\<lambda>it. product_name it = name) (menu_items m) = Some it"
  have "(set_op name ud m = m) =
        (update_first (\<lambda>it. product_name it = name) (fold set_field ud) (menu_items m) = menu_items m)"
    by (cases m) (simp add: set_op_def)
  also have "\<dots> = (fold set_field ud it = it)"
    by (rule update_first_same_iff[OF f])
  finally show ?thesis .
qed

lemma update_menu_found:
  assumes rid: "ObjectId rid = Inr r" and m: "find_one menus r = Some m"
    and name: "truthy (dict_get d ''product_name'')"
    and it: "List.find (\<lambda>it. product_name it = dict_get d ''product_name'') (menu_items m) = Some it"
    and enc: "list_all bson_encodable (dict_get d ''product_name'' # map snd (update_data_of d))"
  shows "update_menu menus rid (Obj d) =
     (if fold set_field (update_data_of d) it = it
      then (([(''msg'', RStr ''No changes made to the product'')], 400), menus)
      else (([(''msg'', RStr ''Menu item updated successfully'')], 200),
            update_first (\<lambda>doc. restaurant_id doc = r)
              (set_op (dict_get d ''product_name'') (update_data_of d)) menus))"
proof -
  let ?name = "dict_get d ''product_name''"
  let ?ud = "update_data_of d"
  let ?flt = "\<lambda>doc. restaurant_id doc = r \<and> list_ex (\<lambda>it. product_name it = ?name) (menu_items doc)"
  have fm: "List.find (\<lambda>doc. restaurant_id doc = r) menus = Some m"
    using m by (simp add: find_one_def)
  have ex: "list_ex (\<lambda>it. product_name it = ?name) (menu_items m)"
    using it by (auto simp: find_Some_iff list_ex_iff)
  have ff: "List.find ?flt menus = Some m"
    using fm ex
    by (rule find_conj[where Q = "\<lambda>doc. list_ex (\<lambda>it. product_name it = ?name) (menu_items doc)"])
  have uf: "update_first ?flt (set_op ?name ?ud) menus =
            update_first (\<lambda>doc. restaurant_id doc = r) (set_op ?name ?ud) menus"
    using fm ex
    by (rule update_first_conj
          [where Q = "\<lambda>doc. list_ex (\<lambda>it. product_name it = ?name) (menu_items doc)"])
  have same: "(set_op ?name ?ud m = m) = (fold set_field ?ud it = it)"
    by (rule set_op_same_iff[OF it])
  have uo: "apply_update menus ?flt (set_op ?name ?ud) =
      (update_first (\<lambda>doc. restaurant_id doc = r) (set_op ?name ?ud) menus,
       if fold set_field ?ud it = it then 0 else 1)"
    using ff uf same by (simp add: apply_update_def)
  obtain ep where py: "List.find (\<lambda>it. py_eq (product_name it) ?name) (menu_items m) = Some ep"
    using find_exact_imp_py[OF it] by auto
  have um: "update_menu menus rid (Obj d) =
     (if fold set_field ?ud it = it
      then (([(''msg'', RStr ''No changes made to the product'')], 400),
            update_first (\<lambda>doc. restaurant_id doc = r) (set_op ?name ?ud) menus)
      else (([(''msg'', RStr ''Menu item updated successfully'')], 200),
            update_first (\<lambda>doc. restaurant_id doc = r) (set_op ?name ?ud) menus))"
    using enc by (simp add: update_menu_def update_one_def Let_def rid m name py uo)
  show ?thesis
  proof (cases "fold set_field ?ud it = it")
    case True
    then have "set_op ?name ?ud m = m" using same by simp
    then have "update_first (\<lambda>doc. restaurant_id doc = r) (set_op ?name ?ud) menus = menus"
      using update_first_same_iff[OF fm, of "set_op ?name ?ud"] by simp
    with True um show ?thesis by simp
  next
    case False
    with um show ?thesis by simp
  qed
qed

lemma set_op_at_first:
  assumes "menu_items m = pre @ it # post" and "\<forall>x\<in>set pre. product_name x \<noteq> name"
    and "product_name it = name"
  shows "set_op name ud m = m\<lparr>menu_items := pre @ fold set_field ud it # post\<rparr>"
  using assms by (simp add: set_op_def update_first_append)

subsection \<open>Relating a collection to its update\<close>

lemma list_all2_update_first:
  "(\<And>x. R x x) \<Longrightarrow> (\<And>x. P x \<Longrightarrow> R (f x) x) \<Longrightarrow> list_all2 R (update_first P f xs) xs"
  by (induction xs) (auto simp: list_all2_refl)

lemma list_all2_apply_update:
  assumes "\<And>x. R x x" and "\<And>x. flt x \<Longrightarrow> R (upd x) x"
  shows "list_all2 R (fst (apply_update menus flt upd)) menus"
  using assms by (auto simp: apply_update_def list_all2_refl list_all2_update_first split: option.splits)

lemma set_op_same_but_fields:
  "doc_id (set_op name ud doc) = doc_id doc \<and> restaurant_id (set_op name ud doc) = restaurant_id doc \<and>
   list_all2 (same_but_fields name) (menu_items (set_op name ud doc)) (menu_items doc)"
  by (simp add: set_op_def)
     (rule list_all2_update_first, simp_all add: same_but_fields_def)

subsection \<open>Documents of other restaurants\<close>

lemma filter_apply_update:
  assumes "\<And>doc. flt doc \<Longrightarrow> restaurant_id doc = r"
    and "\<And>doc. restaurant_id (upd doc) = restaurant_id doc"
  shows "filter (\<lambda>doc. restaurant_id doc \<noteq> r) (fst (apply_update menus flt upd)) =
         filter (\<lambda>doc. restaurant_id doc \<noteq> r) menus"
proof (cases "List.find flt menus")
  case None
  then show ?thesis by (simp add: apply_update_def)
next
  case (Some doc)
  have "filter (\<lambda>doc. restaurant_id doc \<noteq> r) (update_first flt upd menus) =
        filter (\<lambda>doc. restaurant_id doc \<noteq> r) menus"
    by (rule filter_update_first) (simp add: assms)
  with Some show ?thesis by (simp add: apply_update_def)
qed

lemma others_push:
  "filter (\<lambda>doc. restaurant_id doc \<noteq> r)
     (fst (apply_update menus (\<lambda>doc. restaurant_id doc = r) (push_op it))) =
   filter (\<lambda>doc. restaurant_id doc \<noteq> r) menus"
  by (rule filter_apply_update) (simp_all add: push_op_def)

lemma others_set:
  "filter (\<lambda>doc. restaurant_id doc \<noteq> r)
     (fst (apply_update menus (\<lambda>doc. restaurant_id doc = r \<and> Q doc) (set_op name ud))) =
   filter (\<lambda>doc. restaurant_id doc \<noteq> r) menus"
  by (rule filter_apply_update) (simp_all add: set_op_def)

lemma others_pull:
  "filter (\<lambda>doc. restaurant_id doc \<noteq> r)
     (fst (apply_update menus (\<lambda>doc. restaurant_id doc = r) (pull_op name))) =
   filter (\<lambda>doc. restaurant_id doc \<noteq> r) menus"
  by (rule filter_apply_update) (simp_all add: pull_op_def)

lemma others_add_menu:
  "ObjectId rid = Inr r \<Longrightarrow>
   filter (\<lambda>doc. restaurant_id doc \<noteq> r) (snd (add_menu new_id menus rid data)) =
   filter (\<lambda>doc. restaurant_id doc \<noteq> r) menus"
  by (simp add: add_menu_def Let_def insert_one_def update_one_def others_push
           split: body.splits option.splits)

lemma others_update_menu:
  "ObjectId rid = Inr r \<Longrightarrow>
   filter (\<lambda>doc. restaurant_id doc \<noteq> r) (snd (update_menu menus rid data)) =
   filter (\<lambda>doc. restaurant_id doc \<noteq> r) menus"
  by (simp add: update_menu_def Let_def update_one_def others_set
           split: body.splits option.splits)

lemma others_delete_menu_item:
  "ObjectId rid = Inr r \<Longrightarrow>
   filter (\<lambda>doc. restaurant_id doc \<noteq> r) (snd (delete_menu_item menus rid pname)) =
   filter (\<lambda>doc. restaurant_id doc \<noteq> r) menus"
  by (simp add: delete_menu_item_def Let_def update_one_def others_pull
           split: body.splits option.splits)

subsection \<open>Deleting by name\<close>

lemma find_py_JStr:
  "List.find (\<lambda>it. py_eq (product_name it) (JStr s)) xs =
   List.find (\<lambda>it. product_name it = JStr s) xs"
  by (simp add: py_eq_JStr)

lemma pull_op_same_iff:
  "(pull_op s doc = doc) = (\<not> list_ex (\<lambda>it. product_name it = JStr s) (menu_items doc))"
proof -
  have "(pull_op s doc = doc) =
        (filter (\<lambda>it. product_name it \<noteq> JStr s) (menu_items doc) = menu_items doc)"
    by (cases doc) (simp add: pull_op_def)
  also have "\<dots> = (\<forall>it\<in>set (menu_items doc). product_name it \<noteq> JStr s)"
    by (simp add: filter_id_conv)
  finally show ?thesis by (simp add: list_ex_iff)
qed

subsection \<open>Shape of the responses\<close>

lemma well_formed_add_menu:
  "case fst (add_menu new_id menus rid data) of
     Inl e \<Rightarrow> \<not> is_Obj data
   | Inr resp \<Rightarrow> well_formed resp"
  by (simp add: add_menu_def Let_def well_formed_def error_response_def
           split: body.splits sum.splits option.splits)

lemma well_formed_get_menu: "well_formed (get_menu menus rid)"
  by (simp add: get_menu_def well_formed_def error_response_def split: sum.splits option.splits)

lemma well_formed_update_menu: "well_formed (fst (update_menu menus rid data))"
  by (simp add: update_menu_def Let_def well_formed_def error_response_def
           split: body.splits sum.splits option.splits)

lemma well_formed_delete_menu_item: "well_formed (fst (delete_menu_item menus rid pname))"
  by (simp add: delete_menu_item_def Let_def well_formed_def error_response_def
           split: sum.splits option.splits)

lemma well_formed_get_all_menus: "well_formed (get_all_menus menus)"
  by (simp add: get_all_menus_def well_formed_def)

subsection \<open>The except branch of the writes\<close>

text \<open>An integer beyond eight bytes among the values of a write is answered with 500 and
  the collection stays as it was, whether the menu exists or not.\<close>

lemma add_menu_overflow:
  assumes "ObjectId rid = Inr r"
    and "truthy (dict_get d ''product_name'')" and "truthy (dict_get d ''price'')"
    and "truthy (dict_get d ''detail'')"
    and "\<not> list_all bson_encodable (item_values (new_item d))"
  shows "add_menu new_id menus rid (Obj d) =
           (Inr (error_response ''Error adding menu item'' OverflowError), menus)"
  using assms
  by (cases "find_one menus r") (simp_all add: add_menu_def insert_one_def update_one_def Let_def)

lemma update_menu_overflow:
  assumes "ObjectId rid = Inr r" and "find_one menus r = Some m"
    and "truthy (dict_get d ''product_name'')"
    and "List.find (\<lambda>it. py_eq (product_name it) (dict_get d ''product_name'')) (menu_items m) = Some ep"
    and "\<not> list_all bson_encodable (dict_get d ''product_name'' # map snd (update_data_of d))"
  shows "update_menu menus rid (Obj d) = (error_response ''Error updating menu'' OverflowError, menus)"
proof -
  have "update_one menus (dict_get d ''product_name'' # map snd (update_data_of d))
          (\<lambda>doc. restaurant_id doc = r \<and>
             list_ex (\<lambda>it. product_name it = dict_get d ''product_name'') (menu_items doc))
          (set_op (dict_get d ''product_name'') (update_data_of d)) = Inl OverflowError"
    using assms(5) unfolding update_one_def by (rule if_not_P)
  then show ?thesis
    using assms(1-4) by (simp add: update_menu_def Let_def)
qed

lemma add_menu_overflow_example:
  "add_menu (Oid ''000000000000000000000003'') ex_menus ex_rid
     (Obj [''product_name'' \<mapsto> JStr ''Burger'', ''price'' \<mapsto> JInt (2 ^ 63), ''detail'' \<mapsto> JStr ''Beef'']) =
   (Inr ([(''msg'', RStr ''Error adding menu item''),
          (''error'', RStr ''MongoDB can only handle up to 8-byte ints'')], 500), ex_menus)"
  by (simp add: add_menu_def ObjectId_def hexdigit_def lower_hex_def ex_rid_def find_one_def
        ex_menus_def ex_menu_def ex_other_def ex_oid_def update_one_def item_values_def
        new_item_def dict_get_def error_response_def)

lemma update_menu_overflow_example:
  "update_menu ex_menus ex_rid
     (Obj [''product_name'' \<mapsto> JStr ''Burger'', ''price'' \<mapsto> JInt (2 ^ 63)]) =
   (([(''msg'', RStr ''Error updating menu''),
      (''error'', RStr ''MongoDB can only handle up to 8-byte ints'')], 500), ex_menus)"
  by (simp add: update_menu_def ObjectId_def hexdigit_def lower_hex_def ex_rid_def find_one_def
        ex_menus_def ex_menu_def ex_other_def ex_oid_def ex_burger_def ex_fries_def
        update_one_def update_data_of_def dict_get_def error_response_def Let_def)

subsection \<open>Unfolding the handlers on concrete requests\<close>

lemmas ex_defs = ex_rid_def ex_oid_def ex_burger_def ex_fries_def ex_menu_def ex_other_def
  ex_menus_def

lemmas handler_defs = add_menu_def get_menu_def update_menu_def delete_menu_item_def
  get_all_menus_def find_one_def insert_one_def update_one_def apply_update_def item_values_def
  push_op_def set_op_def pull_op_def
  update_data_of_def dict_get_def new_item_def error_response_def ObjectId_def hexdigit_def
  lower_hex_def Let_def

section \<open>Properties of the handlers\<close>

text \<open>
  C1. For a restaurant id that has no menu yet, \<open>add_menu\<close> with three truthy fields
  that the store can hold (an integer among them fits eight bytes)
  answers 201 and appends a new menu document that holds exactly the new item;
  \<open>get_menu\<close> then returns that one item. A second \<open>add_menu\<close> for the same id
  answers 200 and appends its item to the same document, and \<open>get_menu\<close> returns both
  items in the order they were added.
\<close>

theorem add_menu_created_then_appended:
  assumes rid: "ObjectId rid = Inr r" and fresh: "find_one menus r = None"
    and v1: "truthy (dict_get d1 ''product_name'')" "truthy (dict_get d1 ''price'')"
            "truthy (dict_get d1 ''detail'')"
    and v2: "truthy (dict_get d2 ''product_name'')" "truthy (dict_get d2 ''price'')"
            "truthy (dict_get d2 ''detail'')"
    and e1: "list_all bson_encodable (item_values (new_item d1))"
    and e2: "list_all bson_encodable (item_values (new_item d2))"
  shows "add_menu id1 menus rid (Obj d1) =
           (Inr ([(''msg'', RStr ''New menu created and item added successfully'')], 201),
            menus @ [\<lparr>doc_id = id1, restaurant_id = r, menu_items = [new_item d1]\<rparr>])
       \<and> get_menu (snd (add_menu id1 menus rid (Obj d1))) rid =
           ([(''msg'', RStr ''Menu retrieved successfully''), (''menu'', RItems [new_item d1])], 200)
       \<and> add_menu id2 (snd (add_menu id1 menus rid (Obj d1))) rid (Obj d2) =
           (Inr ([(''msg'', RStr ''Menu item added successfully to existing menu'')], 200),
            menus @ [\<lparr>doc_id = id1, restaurant_id = r, menu_items = [new_item d1, new_item d2]\<rparr>])
       \<and> get_menu (snd (add_menu id2 (snd (add_menu id1 menus rid (Obj d1))) rid (Obj d2))) rid =
           ([(''msg'', RStr ''Menu retrieved successfully''),
             (''menu'', RItems [new_item d1, new_item d2])], 200)"
proof -
  let ?doc1 = "\<lparr>doc_id = id1, restaurant_id = r, menu_items = [new_item d1]\<rparr>"
  let ?doc2 = "\<lparr>doc_id = id1, restaurant_id = r, menu_items = [new_item d1, new_item d2]\<rparr>"
  have a1: "add_menu id1 menus rid (Obj d1) =
      (Inr ([(''msg'', RStr ''New menu created and item added successfully'')], 201), menus @ [?doc1])"
    by (rule add_menu_fresh[OF rid fresh v1 e1])
  have f1: "find_one (menus @ [?doc1]) r = Some ?doc1"
    by (rule find_one_append_new[OF fresh]) simp
  have none: "List.find (\<lambda>doc. restaurant_id doc = r) menus = None"
    using fresh by (simp add: find_one_def)
  have u: "update_first (\<lambda>doc. restaurant_id doc = r) (push_op (new_item d2)) (menus @ [?doc1])
             = menus @ [?doc2]"
    using none by (induction menus) (auto simp: push_op_def split: if_splits)
  have a2: "add_menu id2 (menus @ [?doc1]) rid (Obj d2) =
      (Inr ([(''msg'', RStr ''Menu item added successfully to existing menu'')], 200), menus @ [?doc2])"
    using add_menu_existing[OF rid f1 v2 e2, of id2] u by simp
  have f2: "find_one (menus @ [?doc2]) r = Some ?doc2"
    by (rule find_one_append_new[OF fresh]) simp
  have g1: "get_menu (menus @ [?doc1]) rid =
      ([(''msg'', RStr ''Menu retrieved successfully''), (''menu'', RItems [new_item d1])], 200)"
    using rid f1 by (simp add: get_menu_def)
  have g2: "get_menu (menus @ [?doc2]) rid =
      ([(''msg'', RStr ''Menu retrieved successfully''),
        (''menu'', RItems [new_item d1, new_item d2])], 200)"
    using rid f2 by (simp add: get_menu_def)
  show ?thesis using a1 a2 g1 g2 by simp
qed

theorem add_menu_created_then_appended_witness:
  "ObjectId ''64B7f0c2a1d3e4f5a6b7c8d9'' = Inr (Oid ''64b7f0c2a1d3e4f5a6b7c8d9'')
   \<and> find_one [] (Oid ''64b7f0c2a1d3e4f5a6b7c8d9'') = None
   \<and> truthy (dict_get [''product_name'' \<mapsto> JStr ''Burger'', ''price'' \<mapsto> JInt 5, ''detail'' \<mapsto> JStr ''Beef''] ''price'')
   \<and> list_all bson_encodable (item_values (new_item
        [''product_name'' \<mapsto> JStr ''Burger'', ''price'' \<mapsto> JInt 5, ''detail'' \<mapsto> JStr ''Beef'']))
   \<and> list_all bson_encodable (item_values (new_item
        [''product_name'' \<mapsto> JStr ''Fries'', ''price'' \<mapsto> JInt 2, ''detail'' \<mapsto> JStr ''Crispy'']))
   \<and> fst (add_menu (Oid ''000000000000000000000001'') [] ''64B7f0c2a1d3e4f5a6b7c8d9''
        (Obj [''product_name'' \<mapsto> JStr ''Burger'', ''price'' \<mapsto> JInt 5, ''detail'' \<mapsto> JStr ''Beef''])) =
       Inr ([(''msg'', RStr ''New menu created and item added successfully'')], 201)
   \<and> get_menu (snd (add_menu (Oid ''000000000000000000000002'')
        (snd (add_menu (Oid ''000000000000000000000001'') [] ''64B7f0c2a1d3e4f5a6b7c8d9''
          (Obj [''product_name'' \<mapsto> JStr ''Burger'', ''price'' \<mapsto> JInt 5, ''detail'' \<mapsto> JStr ''Beef''])))
        ''64B7f0c2a1d3e4f5a6b7c8d9''
        (Obj [''product_name'' \<mapsto> JStr ''Fries'', ''price'' \<mapsto> JInt 2, ''detail'' \<mapsto> JStr ''Crispy'']))) ''64B7f0c2a1d3e4f5a6b7c8d9'' =
       ([(''msg'', RStr ''Menu retrieved successfully''),
         (''menu'', RItems [\<lparr>product_name = JStr ''Burger'', price = JInt 5, detail = JStr ''Beef''\<rparr>,
                            \<lparr>product_name = JStr ''Fries'', price = JInt 2, detail = JStr ''Crispy''\<rparr>])], 200)"
  using add_menu_created_then_appended
    [of "''64B7f0c2a1d3e4f5a6b7c8d9''" "Oid ''64b7f0c2a1d3e4f5a6b7c8d9''" "[]"
        "[''product_name'' \<mapsto> JStr ''Burger'', ''price'' \<mapsto> JInt 5, ''detail'' \<mapsto> JStr ''Beef'']"
        "[''product_name'' \<mapsto> JStr ''Fries'', ''price'' \<mapsto> JInt 2, ''detail'' \<mapsto> JStr ''Crispy'']"
        "Oid ''000000000000000000000001''" "Oid ''000000000000000000000002''"]
  by (simp add: ObjectId_R1 add_menu_def get_menu_def find_one_def insert_one_def update_one_def
      apply_update_def item_values_def push_op_def dict_get_def new_item_def)

text \<open>
  C2. When the menu exists and holds an item of the requested name, and the name and the
  supplied fields are values the store can hold (an integer fits eight bytes),
  \<open>update_menu\<close> answers 400 "No changes made to the product" exactly when the write leaves the
  collection as it was, and 200 otherwise. The collection is left as it was exactly when
  every supplied field, \<open>price\<close> or \<open>detail\<close>, already has the stored value; this
  includes a request that supplies neither.
\<close>

theorem update_menu_no_change_iff:
  assumes rid: "ObjectId rid = Inr r" and m: "find_one menus r = Some m"
    and name: "truthy (dict_get d ''product_name'')"
    and it: "List.find (\<lambda>it. product_name it = dict_get d ''product_name'') (menu_items m) = Some it"
    and enc: "list_all bson_encodable (dict_get d ''product_name'' # map snd (update_data_of d))"
  shows "fst (update_menu menus rid (Obj d)) =
           (if snd (update_menu menus rid (Obj d)) = menus
            then ([(''msg'', RStr ''No changes made to the product'')], 400)
            else ([(''msg'', RStr ''Menu item updated successfully'')], 200))
       \<and> (snd (update_menu menus rid (Obj d)) = menus) =
           ((d ''price'' = None \<or> d ''price'' = Some (price it)) \<and>
            (d ''detail'' = None \<or> d ''detail'' = Some (detail it)))"
proof -
  let ?name = "dict_get d ''product_name''"
  let ?ud = "update_data_of d"
  have fm: "List.find (\<lambda>doc. restaurant_id doc = r) menus = Some m"
    using m by (simp add: find_one_def)
  have chg: "(update_first (\<lambda>doc. restaurant_id doc = r) (set_op ?name ?ud) menus = menus)
             = (fold set_field ?ud it = it)"
    using update_first_same_iff[OF fm, of "set_op ?name ?ud"] set_op_same_iff[OF it, of ?ud]
    by simp
  show ?thesis
    unfolding update_menu_found[OF rid m name it enc]
    using chg fold_set_field_same[of d it] by (cases "fold set_field ?ud it = it") simp_all
qed

theorem update_menu_no_change_iff_witness:
  "ObjectId ex_rid = Inr ex_oid \<and> find_one ex_menus ex_oid = Some ex_menu
   \<and> truthy (dict_get [''product_name'' \<mapsto> JStr ''Burger'', ''price'' \<mapsto> JInt 5] ''product_name'')
   \<and> List.find (\<lambda>it. product_name it =
          dict_get [''product_name'' \<mapsto> JStr ''Burger'', ''price'' \<mapsto> JInt 5] ''product_name'')
        (menu_items ex_menu) = Some ex_burger
   \<and> list_all bson_encodable
        (dict_get [''product_name'' \<mapsto> JStr ''Burger'', ''price'' \<mapsto> JInt 5] ''product_name''
         # map snd (update_data_of [''product_name'' \<mapsto> JStr ''Burger'', ''price'' \<mapsto> JInt 5]))
   \<and> update_menu ex_menus ex_rid (Obj [''product_name'' \<mapsto> JStr ''Burger'', ''price'' \<mapsto> JInt 5]) =
       (([(''msg'', RStr ''No changes made to the product'')], 400), ex_menus)
   \<and> fst (update_menu ex_menus ex_rid (Obj [''product_name'' \<mapsto> JStr ''Burger''])) =
       ([(''msg'', RStr ''No changes made to the product'')], 400)
   \<and> fst (update_menu ex_menus ex_rid (Obj [''product_name'' \<mapsto> JStr ''Burger'', ''price'' \<mapsto> JInt 6])) =
       ([(''msg'', RStr ''Menu item updated successfully'')], 200)"
  using update_menu_no_change_iff
    [of ex_rid ex_oid ex_menus ex_menu "[''product_name'' \<mapsto> JStr ''Burger'', ''price'' \<mapsto> JInt 5]"
        ex_burger]
  by (simp add: handler_defs ex_defs)

text \<open>
  C3, as the handlers have it. Every response a handler returns has a string under \<open>"msg"\<close>.
  It has a string under \<open>"error"\<close> when its status is 500, and no \<open>"error"\<close> entry
  when its status is anything else (200, 201, 400 or 404). \<open>add_menu\<close> returns no response
  only on a body that is not a JSON object, where \<open>data.get\<close> raises before the \<open>try\<close>.
\<close>

theorem responses_carry_msg_and_error_on_500:
  "(case fst (add_menu new_id menus rid data) of
      Inl e \<Rightarrow> \<not> is_Obj data
    | Inr resp \<Rightarrow> well_formed resp)
   \<and> well_formed (get_menu menus rid)
   \<and> well_formed (fst (update_menu menus rid data))
   \<and> well_formed (fst (delete_menu_item menus rid pname))
   \<and> well_formed (get_all_menus menus)"
  using well_formed_add_menu well_formed_get_menu well_formed_update_menu
    well_formed_delete_menu_item well_formed_get_all_menus
  by (intro conjI)

theorem responses_carry_msg_and_error_on_500_witness:
  "get_menu ex_menus ''xyz'' =
     ([(''msg'', RStr ''Error retrieving menu''),
       (''error'', RStr (str_exn (InvalidId ''xyz'')))], 500)
   \<and> well_formed (get_menu ex_menus ''xyz'')
   \<and> fst (update_menu ex_menus ''xyz'' (Obj Map.empty)) =
     ([(''msg'', RStr ''Error updating menu''),
       (''error'', RStr (str_exn (InvalidId ''xyz'')))], 500)
   \<and> well_formed (fst (update_menu ex_menus ''xyz'' (Obj Map.empty)))
   \<and> fst (delete_menu_item ex_menus ''xyz'' ''Burger'') =
     ([(''msg'', RStr ''Error deleting menu item''),
       (''error'', RStr (str_exn (InvalidId ''xyz'')))], 500)
   \<and> well_formed (fst (delete_menu_item ex_menus ''xyz'' ''Burger''))
   \<and> fst (add_menu ex_oid ex_menus ''xyz'' (Obj Map.empty)) =
     Inr ([(''msg'', RStr ''Missing required fields (product_name, price, detail)'')], 400)
   \<and> well_formed (get_all_menus ex_menus)"
  using responses_carry_msg_and_error_on_500
    [where new_id = ex_oid and menus = ex_menus and rid = "''xyz''" and data = "Obj Map.empty"
       and pname = "''Burger''"]
  by (simp add: handler_defs ex_defs)

text \<open>
  C3 as stated asks for an \<open>"error"\<close> string in every 400 and 404 response. The 404 that
  \<open>get_menu\<close> returns for a restaurant without a menu has only \<open>"msg"\<close>.
\<close>

theorem not_found_response_has_no_error:
  "get_menu [] ''64b7f0c2a1d3e4f5a6b7c8d9'' =
     ([(''msg'', RStr ''No menu found for the given restaurant_id'')], 404)
   \<and> map_of (fst (get_menu [] ''64b7f0c2a1d3e4f5a6b7c8d9'')) ''error'' = None"
  by (simp add: handler_defs)

text \<open>
  C4. When the menu exists and \<open>it\<close> is the first item of the requested name, with the
  items \<open>pre\<close> before it and \<open>post\<close> after it, and the name and the supplied fields are
  values the store can hold (an integer fits eight bytes), \<open>update_menu\<close> leaves a menu whose
  items are \<open>pre\<close>, then \<open>it\<close> with \<open>price\<close> and \<open>detail\<close> replaced where the request
  supplies them and kept where it does not, then \<open>post\<close>. The name is compared exactly,
  so \<open>''burger''\<close> does not name \<open>''Burger''\<close>.
\<close>

theorem update_menu_overwrites_supplied_only:
  assumes rid: "ObjectId rid = Inr r" and m: "find_one menus r = Some m"
    and name: "truthy (dict_get d ''product_name'')"
    and items: "menu_items m = pre @ it # post"
    and pre: "\<forall>x\<in>set pre. product_name x \<noteq> dict_get d ''product_name''"
    and it: "product_name it = dict_get d ''product_name''"
    and enc: "list_all bson_encodable (dict_get d ''product_name'' # map snd (update_data_of d))"
  shows "find_one (snd (update_menu menus rid (Obj d))) r =
           Some (m\<lparr>menu_items :=
                   pre @ it\<lparr>price := (case d ''price'' of None \<Rightarrow> price it | Some v \<Rightarrow> v),
                             detail := (case d ''detail'' of None \<Rightarrow> detail it | Some v \<Rightarrow> v)\<rparr>
                       # post\<rparr>)"
proof -
  let ?name = "dict_get d ''product_name''"
  let ?ud = "update_data_of d"
  let ?it' = "it\<lparr>price := (case d ''price'' of None \<Rightarrow> price it | Some v \<Rightarrow> v),
                 detail := (case d ''detail'' of None \<Rightarrow> detail it | Some v \<Rightarrow> v)\<rparr>"
  have fi: "List.find (\<lambda>x. product_name x = ?name) (menu_items m) = Some it"
    using items pre it by (simp add: find_append_first)
  have so: "set_op ?name ?ud m = m\<lparr>menu_items := pre @ ?it' # post\<rparr>"
    using set_op_at_first[OF items pre it, of ?ud] by (simp add: fold_set_field_eq)
  have rm: "restaurant_id m = r"
    using m by (auto simp: find_one_def find_Some_iff)
  show ?thesis
  proof (cases "fold set_field ?ud it = it")
    case True
    then have "?it' = it" by (simp add: fold_set_field_eq)
    then have "m\<lparr>menu_items := pre @ ?it' # post\<rparr> = m" using items by simp
    then show ?thesis
      using True m by (simp add: update_menu_found[OF rid m name fi enc])
  next
    case False
    have "find_one (update_first (\<lambda>doc. restaurant_id doc = r) (set_op ?name ?ud) menus) r =
          Some (set_op ?name ?ud m)"
      by (rule find_one_update_first[OF m]) (simp add: so rm)
    then show ?thesis
      using False so by (simp add: update_menu_found[OF rid m name fi enc])
  qed
qed

theorem update_menu_overwrites_supplied_only_witness:
  "ObjectId ex_rid = Inr ex_oid \<and> find_one ex_menus ex_oid = Some ex_menu
   \<and> truthy (dict_get [''product_name'' \<mapsto> JStr ''Fries'', ''price'' \<mapsto> JInt 3] ''product_name'')
   \<and> menu_items ex_menu = [ex_burger] @ ex_fries # [ex_burger]
   \<and> product_name ex_burger \<noteq> dict_get [''product_name'' \<mapsto> JStr ''Fries'', ''price'' \<mapsto> JInt 3] ''product_name''
   \<and> product_name ex_fries = dict_get [''product_name'' \<mapsto> JStr ''Fries'', ''price'' \<mapsto> JInt 3] ''product_name''
   \<and> list_all bson_encodable
        (dict_get [''product_name'' \<mapsto> JStr ''Fries'', ''price'' \<mapsto> JInt 3] ''product_name''
         # map snd (update_data_of [''product_name'' \<mapsto> JStr ''Fries'', ''price'' \<mapsto> JInt 3]))
   \<and> find_one (snd (update_menu ex_menus ex_rid
                       (Obj [''product_name'' \<mapsto> JStr ''Fries'', ''price'' \<mapsto> JInt 3]))) ex_oid =
       Some (ex_menu\<lparr>menu_items :=
         [ex_burger, \<lparr>product_name = JStr ''Fries'', price = JInt 3, detail = JStr ''Crispy''\<rparr>,
          ex_burger]\<rparr>)"
  using update_menu_overwrites_supplied_only
    [of ex_rid ex_oid ex_menus ex_menu "[''product_name'' \<mapsto> JStr ''Fries'', ''price'' \<mapsto> JInt 3]"
        "[ex_burger]" ex_fries "[ex_burger]"]
  by (simp add: handler_defs ex_defs)

text \<open>
  C5. For a valid restaurant id: when the menu exists and has an item of the name,
  \<open>delete_menu_item\<close> answers 200 and leaves the menu with every item of that name
  removed and the other items in their order; when there is no menu, or the menu has no
  item of the name, it answers 404 and the collection is unchanged.
\<close>

theorem delete_menu_item_removes_all_matches:
  assumes rid: "ObjectId rid = Inr r"
  shows "(find_one menus r = Some m \<and> list_ex (\<lambda>it. product_name it = JStr pname) (menu_items m) \<longrightarrow>
            fst (delete_menu_item menus rid pname) =
              ([(''msg'', RStr ''Menu item deleted successfully'')], 200)
          \<and> find_one (snd (delete_menu_item menus rid pname)) r =
              Some (m\<lparr>menu_items := filter (\<lambda>it. product_name it \<noteq> JStr pname) (menu_items m)\<rparr>))
       \<and> (find_one menus r = None \<longrightarrow>
            delete_menu_item menus rid pname =
              (([(''msg'', RStr ''Restaurant menu not found'')], 404), menus))
       \<and> (find_one menus r = Some m \<and> \<not> list_ex (\<lambda>it. product_name it = JStr pname) (menu_items m) \<longrightarrow>
            delete_menu_item menus rid pname =
              (([(''msg'', RStr ''Product not found in the menu'')], 404), menus))"
proof (intro conjI impI)
  assume a: "find_one menus r = Some m \<and> list_ex (\<lambda>it. product_name it = JStr pname) (menu_items m)"
  then have m: "find_one menus r = Some m" and ex: "list_ex (\<lambda>it. product_name it = JStr pname) (menu_items m)"
    by simp_all
  have fm: "List.find (\<lambda>doc. restaurant_id doc = r) menus = Some m"
    using m by (simp add: find_one_def)
  obtain x where fx: "List.find (\<lambda>it. product_name it = JStr pname) (menu_items m) = Some x"
    using ex by (cases "List.find (\<lambda>it. product_name it = JStr pname) (menu_items m)")
                (auto simp: find_None_iff list_ex_iff)
  have chg: "pull_op pname m \<noteq> m"
    using ex by (simp add: pull_op_same_iff)
  have res: "delete_menu_item menus rid pname =
      (([(''msg'', RStr ''Menu item deleted successfully'')], 200),
       update_first (\<lambda>doc. restaurant_id doc = r) (pull_op pname) menus)"
    using rid m fm fx chg by (simp add: delete_menu_item_def Let_def find_py_JStr update_one_def apply_update_def)
  show "fst (delete_menu_item menus rid pname) =
          ([(''msg'', RStr ''Menu item deleted successfully'')], 200)"
    by (simp add: res)
  have rm: "restaurant_id m = r"
    using m by (auto simp: find_one_def find_Some_iff)
  have "find_one (update_first (\<lambda>doc. restaurant_id doc = r) (pull_op pname) menus) r =
        Some (pull_op pname m)"
    by (rule find_one_update_first[OF m]) (simp add: pull_op_def rm)
  then show "find_one (snd (delete_menu_item menus rid pname)) r =
      Some (m\<lparr>menu_items := filter (\<lambda>it. product_name it \<noteq> JStr pname) (menu_items m)\<rparr>)"
    by (simp add: res pull_op_def)
next
  assume "find_one menus r = None"
  then show "delete_menu_item menus rid pname =
      (([(''msg'', RStr ''Restaurant menu not found'')], 404), menus)"
    using rid by (simp add: delete_menu_item_def)
next
  assume a: "find_one menus r = Some m \<and> \<not> list_ex (\<lambda>it. product_name it = JStr pname) (menu_items m)"
  then have "List.find (\<lambda>it. product_name it = JStr pname) (menu_items m) = None"
    by (simp add: find_None_iff list_ex_iff)
  then show "delete_menu_item menus rid pname =
      (([(''msg'', RStr ''Product not found in the menu'')], 404), menus)"
    using rid a by (simp add: delete_menu_item_def find_py_JStr)
qed

theorem delete_menu_item_removes_all_matches_witness:
  "ObjectId ex_rid = Inr ex_oid \<and> find_one ex_menus ex_oid = Some ex_menu
   \<and> list_ex (\<lambda>it. product_name it = JStr ''Burger'') (menu_items ex_menu)
   \<and> delete_menu_item ex_menus ex_rid ''Burger'' =
       (([(''msg'', RStr ''Menu item deleted successfully'')], 200),
        [ex_other, ex_menu\<lparr>menu_items := [ex_fries]\<rparr>])
   \<and> find_one [ex_other] ex_oid = None
   \<and> delete_menu_item [ex_other] ex_rid ''Burger'' =
       (([(''msg'', RStr ''Restaurant menu not found'')], 404), [ex_other])
   \<and> list_ex (\<lambda>it. product_name it = JStr ''burger'') (menu_items ex_menu) = False
   \<and> delete_menu_item ex_menus ex_rid ''burger'' =
       (([(''msg'', RStr ''Product not found in the menu'')], 404), ex_menus)"
  using delete_menu_item_removes_all_matches[of ex_rid ex_oid ex_menus ex_menu "''Burger''"]
    delete_menu_item_removes_all_matches[of ex_rid ex_oid "[ex_other]" ex_menu "''Burger''"]
    delete_menu_item_removes_all_matches[of ex_rid ex_oid ex_menus ex_menu "''burger''"]
  by (simp add: handler_defs ex_defs)

text \<open>
  C6. \<open>get_menu\<close> answers 404 for a restaurant id without a menu. \<open>get_all_menus\<close>
  answers 404 on the empty collection; on a collection that is not empty it answers 200
  with every document, in order, its \<open>_id\<close> and \<open>restaurant_id\<close> rendered by \<open>str\<close>.
\<close>

theorem empty_reads_are_not_found:
  "(ObjectId rid = Inr r \<and> find_one menus r = None \<longrightarrow>
      get_menu menus rid = ([(''msg'', RStr ''No menu found for the given restaurant_id'')], 404))
   \<and> get_all_menus [] = ([(''msg'', RStr ''No menus found'')], 404)
   \<and> (menus \<noteq> [] \<longrightarrow>
      get_all_menus menus =
        ([(''msg'', RStr ''Menus retrieved successfully''),
          (''menus'', RMenus (map (\<lambda>menu. \<lparr>doc_id = str_oid (doc_id menu),
                                            restaurant_id = str_oid (restaurant_id menu),
                                            menu_items = menu_items menu\<rparr>) menus))], 200))"
  by (simp add: get_menu_def get_all_menus_def)

theorem empty_reads_are_not_found_witness:
  "ObjectId ex_rid = Inr ex_oid \<and> find_one [ex_other] ex_oid = None
   \<and> get_menu [ex_other] ex_rid = ([(''msg'', RStr ''No menu found for the given restaurant_id'')], 404)
   \<and> ex_menus \<noteq> []
   \<and> get_all_menus ex_menus =
       ([(''msg'', RStr ''Menus retrieved successfully''),
         (''menus'', RMenus
            [\<lparr>doc_id = ''000000000000000000000002'', restaurant_id = ''00000000000000000000000a'',
              menu_items = [ex_burger]\<rparr>,
             \<lparr>doc_id = ''000000000000000000000001'', restaurant_id = ''64b7f0c2a1d3e4f5a6b7c8d9'',
              menu_items = [ex_burger, ex_fries, ex_burger]\<rparr>])], 200)"
  using empty_reads_are_not_found[of ex_rid ex_oid "[ex_other]"]
    empty_reads_are_not_found[of ex_rid ex_oid ex_menus]
  by (simp add: handler_defs ex_defs)

text \<open>
  C7. The validation of \<open>add_menu\<close> tests truthiness, not presence: a request whose
  three fields are all present and whose \<open>price\<close> is the number 0 is answered with
  400 "Missing required fields" and the collection is left as it was. (\<open>update_menu\<close>
  tests \<open>'price' in data\<close> and accepts the same price.)
\<close>

theorem add_menu_rejects_zero_price:
  "add_menu new_id menus rid
     (Obj [''product_name'' \<mapsto> JStr ''Burger'', ''price'' \<mapsto> JInt 0, ''detail'' \<mapsto> JStr ''Beef'']) =
   (Inr ([(''msg'', RStr ''Missing required fields (product_name, price, detail)'')], 400), menus)"
  by (simp add: add_menu_def dict_get_def)

theorem add_menu_rejects_zero_price_witness:
  "fst (add_menu (Oid ''000000000000000000000003'') ex_menus ex_rid
     (Obj [''product_name'' \<mapsto> JStr ''Burger'', ''price'' \<mapsto> JInt 0, ''detail'' \<mapsto> JStr ''Beef''])) =
   Inr ([(''msg'', RStr ''Missing required fields (product_name, price, detail)'')], 400)
   \<and> fst (update_menu ex_menus ex_rid (Obj [''product_name'' \<mapsto> JStr ''Burger'', ''price'' \<mapsto> JInt 0])) =
       ([(''msg'', RStr ''Menu item updated successfully'')], 200)"
  using add_menu_rejects_zero_price
    [where new_id = "Oid ''000000000000000000000003''" and menus = ex_menus and rid = ex_rid]
  by (simp add: handler_defs ex_defs)

text \<open>
  C8. \<open>add_menu\<close>, \<open>update_menu\<close> and \<open>delete_menu_item\<close>, called with the id of
  restaurant \<open>r\<close>, leave the documents of every other restaurant as they were: the
  documents whose \<open>restaurant_id\<close> is not \<open>r\<close> are the same, in the same order, before
  and after.
\<close>

theorem mutations_leave_other_restaurants:
  assumes "ObjectId rid = Inr r"
  shows "filter (\<lambda>doc. restaurant_id doc \<noteq> r) (snd (add_menu new_id menus rid data)) =
           filter (\<lambda>doc. restaurant_id doc \<noteq> r) menus
       \<and> filter (\<lambda>doc. restaurant_id doc \<noteq> r) (snd (update_menu menus rid data)) =
           filter (\<lambda>doc. restaurant_id doc \<noteq> r) menus
       \<and> filter (\<lambda>doc. restaurant_id doc \<noteq> r) (snd (delete_menu_item menus rid pname)) =
           filter (\<lambda>doc. restaurant_id doc \<noteq> r) menus"
  using assms others_add_menu others_update_menu others_delete_menu_item by simp

theorem mutations_leave_other_restaurants_witness:
  "ObjectId ex_rid = Inr ex_oid
   \<and> filter (\<lambda>doc. restaurant_id doc \<noteq> ex_oid)
       (snd (add_menu (Oid ''000000000000000000000003'') ex_menus ex_rid
          (Obj [''product_name'' \<mapsto> JStr ''Cola'', ''price'' \<mapsto> JInt 1, ''detail'' \<mapsto> JStr ''Cold'']))) =
       [ex_other]
   \<and> filter (\<lambda>doc. restaurant_id doc \<noteq> ex_oid)
       (snd (update_menu ex_menus ex_rid (Obj [''product_name'' \<mapsto> JStr ''Burger'', ''price'' \<mapsto> JInt 6]))) =
       [ex_other]
   \<and> filter (\<lambda>doc. restaurant_id doc \<noteq> ex_oid) (snd (delete_menu_item ex_menus ex_rid ''Burger'')) =
       [ex_other]
   \<and> snd (delete_menu_item ex_menus ex_rid ''Burger'') = [ex_other, ex_menu\<lparr>menu_items := [ex_fries]\<rparr>]"
  using mutations_leave_other_restaurants
    [of ex_rid ex_oid "Oid ''000000000000000000000003''" ex_menus
        "Obj [''product_name'' \<mapsto> JStr ''Cola'', ''price'' \<mapsto> JInt 1, ''detail'' \<mapsto> JStr ''Cold'']"
        "''Burger''"]
  by (simp add: handler_defs ex_defs)

text \<open>
  C9. For every request, \<open>update_menu\<close> leaves a collection with the same documents in
  the same order, each with its identifiers and with an item sequence of the same length
  and order in which every item keeps its \<open>product_name\<close>, and is unchanged altogether
  unless it carries the requested name.
\<close>

theorem update_menu_keeps_item_sequence:
  "list_all2
     (\<lambda>doc' doc. doc_id doc' = doc_id doc \<and> restaurant_id doc' = restaurant_id doc \<and>
        list_all2 (same_but_fields (name_of data)) (menu_items doc') (menu_items doc))
     (snd (update_menu menus rid data)) menus"
proof -
  let ?R = "\<lambda>doc' doc. doc_id doc' = doc_id doc \<and> restaurant_id doc' = restaurant_id doc \<and>
        list_all2 (same_but_fields (name_of data)) (menu_items doc') (menu_items doc)"
  have refl: "\<And>x. ?R x x"
    by (simp add: list_all2_refl same_but_fields_def)
  have upd: "\<And>flt ud d. data = Obj d \<Longrightarrow>
      list_all2 ?R (fst (apply_update menus flt (set_op (dict_get d ''product_name'') ud))) menus"
  proof -
    fix flt ud d assume d: "data = Obj d"
    show "list_all2 ?R (fst (apply_update menus flt (set_op (dict_get d ''product_name'') ud))) menus"
      by (rule list_all2_apply_update[where R = ?R])
         (simp_all add: list_all2_refl same_but_fields_def d set_op_same_but_fields)
  qed
  have same: "list_all2 ?R menus menus"
    by (rule list_all2_refl) (simp add: list_all2_refl same_but_fields_def)
  show ?thesis
  proof (cases data)
    case (NonObj ty)
    then show ?thesis using same
      by (simp add: update_menu_def split: sum.splits option.splits)
  next
    case (Obj d)
    show ?thesis
      unfolding update_menu_def update_one_def Let_def
      using same upd[OF Obj] Obj
      by (simp split: sum.splits option.splits)
  qed
qed

theorem update_menu_keeps_item_sequence_witness:
  "snd (update_menu ex_menus ex_rid
          (Obj [''product_name'' \<mapsto> JStr ''Burger'', ''price'' \<mapsto> JInt 9, ''detail'' \<mapsto> JStr ''Veg''])) =
     [ex_other,
      ex_menu\<lparr>menu_items :=
        [\<lparr>product_name = JStr ''Burger'', price = JInt 9, detail = JStr ''Veg''\<rparr>, ex_fries, ex_burger]\<rparr>]
   \<and> list_all2
     (\<lambda>doc' doc. doc_id doc' = doc_id doc \<and> restaurant_id doc' = restaurant_id doc \<and>
        list_all2 (same_but_fields (JStr ''Burger'')) (menu_items doc') (menu_items doc))
     (snd (update_menu ex_menus ex_rid
          (Obj [''product_name'' \<mapsto> JStr ''Burger'', ''price'' \<mapsto> JInt 9, ''detail'' \<mapsto> JStr ''Veg''])))
     ex_menus"
  using update_menu_keeps_item_sequence
    [of "Obj [''product_name'' \<mapsto> JStr ''Burger'', ''price'' \<mapsto> JInt 9, ''detail'' \<mapsto> JStr ''Veg'']"
        ex_menus ex_rid]
  by (simp add: handler_defs ex_defs same_but_fields_def)

text \<open>
  C10. \<open>update_menu\<close> looks the menu up before it reads the body: for a restaurant id
  without a menu the answer is 404 "Restaurant menu not found" whatever the body is, and
  the answer 400 "Product name is required" is given only when the menu exists (and the
  body is an object whose \<open>product_name\<close> is absent or falsy).
\<close>

theorem update_menu_checks_menu_first:
  "(ObjectId rid = Inr r \<and> find_one menus r = None \<longrightarrow>
      update_menu menus rid data = (([(''msg'', RStr ''Restaurant menu not found'')], 404), menus))
   \<and> (fst (update_menu menus rid data) = ([(''msg'', RStr ''Product name is required'')], 400) \<longrightarrow>
      (\<exists>r m d. ObjectId rid = Inr r \<and> find_one menus r = Some m \<and> data = Obj d \<and>
          \<not> truthy (dict_get d ''product_name'')))"
  by (auto simp: update_menu_def Let_def error_response_def split: sum.splits option.splits body.splits if_splits)

theorem update_menu_checks_menu_first_witness:
  "ObjectId ex_rid = Inr ex_oid \<and> find_one [ex_other] ex_oid = None
   \<and> update_menu [ex_other] ex_rid (Obj Map.empty) =
       (([(''msg'', RStr ''Restaurant menu not found'')], 404), [ex_other])
   \<and> update_menu [ex_other] ex_rid (NonObj ''NoneType'') =
       (([(''msg'', RStr ''Restaurant menu not found'')], 404), [ex_other])
   \<and> fst (update_menu ex_menus ex_rid (Obj [''price'' \<mapsto> JInt 6])) =
       ([(''msg'', RStr ''Product name is required'')], 400)
   \<and> find_one ex_menus ex_oid = Some ex_menu"
  using update_menu_checks_menu_first[of ex_rid ex_oid "[ex_other]" "Obj Map.empty"]
    update_menu_checks_menu_first[of ex_rid ex_oid ex_menus "Obj [''price'' \<mapsto> JInt 6]"]
  by (simp add: handler_defs ex_defs)

end
